theory Spec2Isabelle
  imports Main "HOL-Library.Sublist"
begin

section \<open>The VFS appointment bot: \<open>vfs_bot.py\<close>\<close>

text \<open>
  A shallow embedding of \<^verbatim>\<open>VfsBot.run\<close>, \<^verbatim>\<open>VfsBot.get_appointment_params\<close> and
  \<^verbatim>\<open>VfsBot.notify_appointment\<close> (src/vfs_appointment_bot/vfs_bot/vfs_bot.py).
  The methods are effectful: they log, read the terminal, drive a browser through
  Playwright, and call the abstract adapter methods. Every call is a function from the
  state of the world to a result and the new state; a raised exception is the left
  summand of the result.
\<close>

subsection \<open>Exceptions, events, the state of the world\<close>

text \<open>
  An instance of Python's \<^verbatim>\<open>Exception\<close>: the name of its class and \<^verbatim>\<open>str(e)\<close>.
  (\<^verbatim>\<open>except Exception\<close> does not catch \<^verbatim>\<open>KeyboardInterrupt\<close> or \<^verbatim>\<open>SystemExit\<close>;
  these signals are not modelled.)
\<close>

datatype exn = Exn (cls: string) (str: string)

datatype level = INFO | WARNING | ERROR

text \<open>
  What a run does to the outside world, in the order it does it. A call that can fail is
  recorded with its arguments and with how it ended: \<open>None\<close> when it returned, the
  exception when it raised (for \<^verbatim>\<open>check_for_appontment\<close> the value or the exception, for
  \<^verbatim>\<open>input\<close> the line read, \<open>None\<close> at the end of the input).
  \<open>NotifyAppointment\<close> marks a call of \<^verbatim>\<open>notify_appointment\<close>.
\<close>

datatype event =
    Log level string
  | Input string "string option"
  | PlaywrightStart
  | PlaywrightStop
  | Launch string bool "string list" "exn option"
  | NewPage "exn option"
  | Goto "string option" "exn option"
  | WaitForSelector string int "exn option"
  | WaitForTimeout int
  | PreLoginSteps "exn option"
  | Login "string option" "string option" "exn option"
  | CheckForAppointment "(string \<times> string) list" "exn + string list option"
  | NotifyAppointment "(string \<times> string) list" "string list"
  | GetNotificationClient string "exn option"
  | SendNotification string string "exn option"
  | BrowserClose

text \<open>The world: the events so far and the lines waiting on standard input.\<close>

record world =
  trace :: "event list"
  stdin :: "string list"

definition initial :: "string list \<Rightarrow> world" where
  "initial inp = \<lparr>trace = [], stdin = inp\<rparr>"

type_synonym 'a io = "world \<Rightarrow> (exn + 'a) \<times> world"

definition return :: "'a \<Rightarrow> 'a io" where
  "return x s = (Inr x, s)"

definition raise :: "exn \<Rightarrow> 'a io" where
  "raise e s = (Inl e, s)"

definition bind :: "'a io \<Rightarrow> ('a \<Rightarrow> 'b io) \<Rightarrow> 'b io" where
  "bind m f s = (case m s of (Inl e, s') \<Rightarrow> (Inl e, s') | (Inr x, s') \<Rightarrow> f x s')"

text \<open>\<^verbatim>\<open>try: m except Exception as e: h(e)\<close>\<close>

definition try_except :: "'a io \<Rightarrow> (exn \<Rightarrow> 'a io) \<Rightarrow> 'a io" where
  "try_except m h s = (case m s of (Inl e, s') \<Rightarrow> h e s' | (Inr x, s') \<Rightarrow> (Inr x, s'))"

definition emit :: "event \<Rightarrow> unit io" where
  "emit ev s = (Inr (), s\<lparr>trace := trace s @ [ev]\<rparr>)"

text \<open>An external call whose outcome the environment fixes: it returns or it raises.\<close>

definition outcome :: "exn option \<Rightarrow> unit io" where
  "outcome r s = (case r of None \<Rightarrow> return () s | Some e \<Rightarrow> raise e s)"

definition lift :: "exn + 'a \<Rightarrow> 'a io" where
  "lift r s = (case r of Inl e \<Rightarrow> raise e s | Inr x \<Rightarrow> return x s)"

text \<open>An external call with outcome \<open>r\<close>, recorded as the event \<open>ev r\<close>.\<close>

definition external :: "(exn option \<Rightarrow> event) \<Rightarrow> exn option \<Rightarrow> unit io" where
  "external ev r s = bind (emit (ev r)) (\<lambda>_. outcome r) s"

definition logging :: "level \<Rightarrow> string \<Rightarrow> unit io" where
  "logging l m s = emit (Log l m) s"

subsection \<open>Python strings and dicts\<close>

text \<open>\<^verbatim>\<open>sep.join(xs)\<close>\<close>

fun join :: "string \<Rightarrow> string list \<Rightarrow> string" where
  "join sep [] = []"
| "join sep [x] = x"
| "join sep (x # y # ys) = x @ sep @ join sep (y # ys)"

text \<open>\<^verbatim>\<open>s.split(c)\<close> for a separator of one character: never an empty list.\<close>

fun split :: "char \<Rightarrow> string \<Rightarrow> string list" where
  "split c [] = [[]]"
| "split c (x # xs) =
     (if x = c then [] # split c xs
      else (case split c xs of [] \<Rightarrow> [[x]] | w # ws \<Rightarrow> (x # w) # ws))"

text \<open>\<^verbatim>\<open>s.replace(a, b)\<close> for single characters.\<close>

definition replace :: "char \<Rightarrow> char \<Rightarrow> string \<Rightarrow> string" where
  "replace a b s = map (\<lambda>c. if c = a then b else c) s"

text \<open>\<^verbatim>\<open>s.upper()\<close> on ASCII letters.\<close>

definition upper :: "string \<Rightarrow> string" where
  "upper s = map (\<lambda>c. if c \<in> set ''abcdefghijklmnopqrstuvwxyz''
                        then char_of (of_char c - (32::nat)) else c) s"

text \<open>\<^verbatim>\<open>repr\<close> of a string without quotes or escapes in it, and of a dict of such strings
  (used in log messages only).\<close>

definition repr :: "string \<Rightarrow> string" where
  "repr s = [CHR 0x27] @ s @ [CHR 0x27]"

definition repr_dict :: "(string \<times> string) list \<Rightarrow> string" where
  "repr_dict d = ''{'' @ join '', '' (map (\<lambda>(k, v). repr k @ '': '' @ repr v) d) @ ''}''"

text \<open>
  A \<^verbatim>\<open>dict\<close> built by assignment keeps its keys in the order of their first insertion:
  \<^verbatim>\<open>d[k] = v\<close> overwrites in place or appends. \<^verbatim>\<open>d.values()\<close> follows that order.
\<close>

fun dict_set :: "(string \<times> string) list \<Rightarrow> string \<Rightarrow> string \<Rightarrow> (string \<times> string) list" where
  "dict_set [] k v = [(k, v)]"
| "dict_set ((k', v') # d) k v = (if k' = k then (k, v) # d else (k', v') # dict_set d k v)"

definition values_of :: "(string \<times> string) list \<Rightarrow> string list" where
  "values_of d = map snd d"

subsection \<open>The command-line arguments\<close>

text \<open>
  \<^verbatim>\<open>args\<close> is \<^verbatim>\<open>None\<close> (the default of \<^verbatim>\<open>run\<close>) or an \<^verbatim>\<open>argparse.Namespace\<close>. Its
  attribute \<^verbatim>\<open>appointment_params\<close> is absent, \<^verbatim>\<open>None\<close>, or a dict from keys to values
  that may be \<^verbatim>\<open>None\<close>. A dict is a partial map: subscripting it with an absent key raises
  \<^verbatim>\<open>KeyError\<close>.
\<close>

datatype attribute = NoAttribute | AttrNone | AttrDict "string \<Rightarrow> string option option"

datatype args = ArgsNone | Namespace attribute

text \<open>\<^verbatim>\<open>input(prompt)\<close>: the next line of standard input, \<^verbatim>\<open>EOFError\<close> at its end.\<close>

definition input :: "string \<Rightarrow> string io" where
  "input prompt s =
     (case stdin s of
        [] \<Rightarrow> (Inl (Exn ''EOFError'' ''EOF when reading a line''),
               s\<lparr>trace := trace s @ [Input prompt None]\<rparr>)
      | l # ls \<Rightarrow> (Inr l, s\<lparr>trace := trace s @ [Input prompt (Some l)], stdin := ls\<rparr>))"

text \<open>\<^verbatim>\<open>getattr(args, "appointment_params")\<close>\<close>

definition getattr_appointment_params :: "args \<Rightarrow> attribute io" where
  "getattr_appointment_params a s =
     (case a of
        ArgsNone \<Rightarrow> raise (Exn ''AttributeError''
                     (repr ''NoneType'' @ '' object has no attribute '' @ repr ''appointment_params'')) s
      | Namespace NoAttribute \<Rightarrow> raise (Exn ''AttributeError''
                     (repr ''Namespace'' @ '' object has no attribute '' @ repr ''appointment_params'')) s
      | Namespace at \<Rightarrow> return at s)"

text \<open>\<^verbatim>\<open>args.appointment_params[key]\<close>, once the attribute is known not to be \<^verbatim>\<open>None\<close>.\<close>

definition subscript :: "(string \<Rightarrow> string option option) \<Rightarrow> string \<Rightarrow> string option io" where
  "subscript d key s =
     (case d key of None \<Rightarrow> raise (Exn ''KeyError'' (repr key)) s | Some v \<Rightarrow> return v s)"

text \<open>The \<^verbatim>\<open>else\<close> branch of the loop body: prompt for the key.\<close>

definition prompt_for :: "string \<Rightarrow> string io" where
  "prompt_for key s = input (''Enter the '' @ replace CHR ''_'' CHR '' '' key @ '': '') s"

text \<open>
  \<^verbatim>\<open>get_appointment_params\<close>: the loop over \<^verbatim>\<open>self.appointment_param_keys\<close>, with the
  dict built so far. The condition is evaluated left to right: \<^verbatim>\<open>getattr\<close> first, the
  subscript only when the attribute is not \<^verbatim>\<open>None\<close>.
\<close>

fun collect :: "string list \<Rightarrow> args \<Rightarrow> (string \<times> string) list \<Rightarrow> (string \<times> string) list io" where
  "collect [] a acc s = return acc s"
| "collect (key # keys) a acc s =
     bind (getattr_appointment_params a) (\<lambda>at.
       case at of
         AttrDict d \<Rightarrow>
           bind (subscript d key) (\<lambda>v.
             case v of
               Some x \<Rightarrow> collect keys a (dict_set acc key x)
             | None \<Rightarrow> bind (prompt_for key) (\<lambda>x. collect keys a (dict_set acc key x)))
       | _ \<Rightarrow> bind (prompt_for key) (\<lambda>x. collect keys a (dict_set acc key x))) s"

definition get_appointment_params :: "string list \<Rightarrow> args \<Rightarrow> (string \<times> string) list io" where
  "get_appointment_params keys a s = collect keys a [] s"

subsection \<open>The bot, its adapter and its surroundings\<close>

text \<open>The fields \<^verbatim>\<open>__init__\<close> sets; a subclass fills them in (\<^verbatim>\<open>VfsBotNl\<close>: destination
  \<^verbatim>\<open>"NL"\<close>, three keys).\<close>

record bot =
  source_country_code :: string
  destination_country_code :: string
  appointment_param_keys :: "string list"

text \<open>
  What \<^verbatim>\<open>vfs_bot.py\<close> calls and does not define, taken as parameters:
  \<^item> \<^verbatim>\<open>get_config_value(section, key, default=None)\<close> of \<^verbatim>\<open>utils/config_reader.py\<close>:
    it returns a string or \<^verbatim>\<open>None\<close>, or raises;
  \<^item> the abstract methods \<^verbatim>\<open>pre_login_steps\<close>, \<^verbatim>\<open>login\<close> and \<^verbatim>\<open>check_for_appontment\<close>
    of the subclass: each returns or raises, the last one a list of dates or \<^verbatim>\<open>None\<close>;
  \<^item> \<^verbatim>\<open>get_notification_client(channel)\<close> of the notification factory and the client's
    \<^verbatim>\<open>send_notification(message)\<close>: each returns or raises;
  \<^item> the browser: whether \<^verbatim>\<open>launch\<close>, \<^verbatim>\<open>new_page\<close> and \<^verbatim>\<open>goto\<close> succeed, and after how
    many milliseconds the element \<^verbatim>\<open>div[appcloudflarerecaptcha]\<close> appears, if ever.
\<close>

record env =
  get_config_value :: "string \<Rightarrow> string \<Rightarrow> string option \<Rightarrow> exn + string option"
  launch :: "exn option"
  new_page :: "exn option"
  goto :: "string option \<Rightarrow> exn option"
  challenge_marker :: "int option"
  pre_login_steps :: "exn option"
  login :: "string option \<Rightarrow> string option \<Rightarrow> exn option"
  check_for_appontment :: "(string \<times> string) list \<Rightarrow> exn + string list option"
  get_notification_client :: "string \<Rightarrow> exn option"
  send_notification :: "string \<Rightarrow> string \<Rightarrow> exn option"

subsection \<open>The browser\<close>

text \<open>
  \<^verbatim>\<open>getattr(p, browser_type).launch(headless=h, args=a)\<close>. Playwright has the engines
  \<^verbatim>\<open>chromium\<close>, \<^verbatim>\<open>firefox\<close> and \<^verbatim>\<open>webkit\<close>; \<^verbatim>\<open>getattr\<close> with \<^verbatim>\<open>None\<close> is a
  \<^verbatim>\<open>TypeError\<close>, any other name is an \<^verbatim>\<open>AttributeError\<close>.
\<close>

definition engines :: "string set" where
  "engines = {''chromium'', ''firefox'', ''webkit''}"

definition browser_launch :: "env \<Rightarrow> string option \<Rightarrow> bool \<Rightarrow> string list \<Rightarrow> unit io" where
  "browser_launch E browser_type headless a s =
     (case browser_type of
        None \<Rightarrow> raise (Exn ''TypeError'' (''attribute name must be string, not '' @ repr ''NoneType'')) s
      | Some b \<Rightarrow>
          if b \<notin> engines
          then raise (Exn ''AttributeError''
                        (repr ''Playwright'' @ '' object has no attribute '' @ repr b)) s
          else external (Launch b headless a) (launch E) s)"

text \<open>\<^verbatim>\<open>browser.close()\<close>\<close>

definition browser_close :: "unit io" where
  "browser_close s = emit BrowserClose s"

text \<open>
  \<^verbatim>\<open>with sync_playwright() as p: body\<close>. Leaving the block, by \<^verbatim>\<open>return\<close> or by an
  exception, stops Playwright. The exception, if any, goes on.
\<close>

definition playwright_stop :: "world \<Rightarrow> world" where
  "playwright_stop s = s\<lparr>trace := trace s @ [PlaywrightStop]\<rparr>"

definition with_sync_playwright :: "'a io \<Rightarrow> 'a io" where
  "with_sync_playwright body s =
     (case body (s\<lparr>trace := trace s @ [PlaywrightStart]\<rparr>) of (r, s') \<Rightarrow> (r, playwright_stop s'))"

definition page_goto :: "env \<Rightarrow> string option \<Rightarrow> unit io" where
  "page_goto E url s = external (Goto url) (goto E url) s"

text \<open>\<^verbatim>\<open>page.wait_for_selector(sel, timeout=t)\<close> for the challenge marker: Playwright's
  \<^verbatim>\<open>TimeoutError\<close> when the element has not appeared after \<open>t\<close> milliseconds.\<close>

definition marker_wait :: "env \<Rightarrow> int \<Rightarrow> exn option" where
  "marker_wait E t =
     (case challenge_marker E of
        None \<Rightarrow> Some (Exn ''TimeoutError'' ''Timeout exceeded.'')
      | Some d \<Rightarrow> if d \<le> t then None else Some (Exn ''TimeoutError'' ''Timeout exceeded.''))"

definition wait_for_selector :: "env \<Rightarrow> string \<Rightarrow> int \<Rightarrow> unit io" where
  "wait_for_selector E sel t s = external (WaitForSelector sel t) (marker_wait E t) s"

definition wait_for_timeout :: "int \<Rightarrow> unit io" where
  "wait_for_timeout t s = emit (WaitForTimeout t) s"

subsection \<open>\<^verbatim>\<open>notify_appointment\<close>\<close>

text \<open>The loop over \<^verbatim>\<open>channels.split(",")\<close>: the client is resolved outside the
  \<^verbatim>\<open>try\<close>, the delivery is inside it.\<close>

fun fan_out :: "env \<Rightarrow> string \<Rightarrow> string list \<Rightarrow> unit io" where
  "fan_out E message [] s = return () s"
| "fan_out E message (channel # channels) s =
     bind (external (GetNotificationClient channel) (get_notification_client E channel)) (\<lambda>_.
     bind (try_except
             (external (SendNotification channel message) (send_notification E channel message))
             (\<lambda>_. logging ERROR (''Failed to send '' @ channel @ '' notification''))) (\<lambda>_.
     fan_out E message channels)) s"

definition appointment_message :: "(string \<times> string) list \<Rightarrow> string list \<Rightarrow> string" where
  "appointment_message appointment_params dates =
     ''Found appointment(s) for '' @ join '', '' (values_of appointment_params)
       @ '' on '' @ join '', '' dates"

definition notify_appointment :: "env \<Rightarrow> (string \<times> string) list \<Rightarrow> string list \<Rightarrow> unit io" where
  "notify_appointment E appointment_params dates s =
     (let message = appointment_message appointment_params dates in
      bind (emit (NotifyAppointment appointment_params dates)) (\<lambda>_.
      bind (lift (get_config_value E ''notification'' ''channels'' None)) (\<lambda>channels.
        case channels of
          None \<Rightarrow> raise (Exn ''TypeError'' (''object of type '' @ repr ''NoneType'' @ '' has no len()''))
        | Some ch \<Rightarrow>
            if length ch = 0
            then logging WARNING ''No notification channels configured. Skipping notification.''
            else fan_out E message (split CHR '','' ch))) s)"

subsection \<open>\<^verbatim>\<open>run\<close>\<close>

text \<open>What \<^verbatim>\<open>run\<close> returns: \<^verbatim>\<open>None\<close> (the bare \<^verbatim>\<open>return\<close>) or a \<^verbatim>\<open>bool\<close>.\<close>

datatype pyval = PyNone | PyBool bool

definition login_failed_message :: string where
  "login_failed_message =
     [CHR 0x1B] @ ''[1;31mLogin failed. ''
       @ ''Please verify your username and password by logging in to the browser and try again.''
       @ [CHR 0x1B] @ ''[0m''"

text \<open>The body of the first \<^verbatim>\<open>try\<close>: three reads, the first failure ends it.\<close>

definition read_config :: "bot \<Rightarrow> env \<Rightarrow> exn + (string option \<times> string option \<times> string option)" where
  "read_config B E =
     (case get_config_value E ''browser'' ''type'' (Some ''firefox'') of
        Inl e \<Rightarrow> Inl e
      | Inr browser_type \<Rightarrow>
     (case get_config_value E ''browser'' ''headless'' (Some ''True'') of
        Inl e \<Rightarrow> Inl e
      | Inr headless_mode \<Rightarrow>
     (let url_key = source_country_code B @ ''-'' @ destination_country_code B in
      case get_config_value E ''vfs-url'' url_key None of
        Inl e \<Rightarrow> Inl e
      | Inr vfs_url \<Rightarrow> Inr (browser_type, headless_mode, vfs_url))))"

text \<open>The two reads after the \<^verbatim>\<open>try\<close>.\<close>

definition read_credentials :: "env \<Rightarrow> exn + (string option \<times> string option)" where
  "read_credentials E =
     (case get_config_value E ''vfs-credential'' ''email'' None of
        Inl e \<Rightarrow> Inl e
      | Inr email_id \<Rightarrow>
     (case get_config_value E ''vfs-credential'' ''password'' None of
        Inl e \<Rightarrow> Inl e
      | Inr password \<Rightarrow> Inr (email_id, password)))"

text \<open>The second \<^verbatim>\<open>try\<close>: the appointment check, the notification, and the flag that is
  set after the notification has returned.\<close>

definition check_and_notify :: "env \<Rightarrow> (string \<times> string) list \<Rightarrow> bool io" where
  "check_and_notify E appointment_params s =
     try_except
       (bind (bind (emit (CheckForAppointment appointment_params
                              (check_for_appontment E appointment_params)))
                (\<lambda>_. lift (check_for_appontment E appointment_params))) (\<lambda>dates.
          case dates of
            Some (d # ds) \<Rightarrow>
              bind (logging INFO ([CHR 0x1B] @ ''[1;32mFound appointments on: ''
                                    @ join '', '' (d # ds) @ '' '' @ [CHR 0x1B] @ ''[0m'')) (\<lambda>_.
              bind (notify_appointment E appointment_params (d # ds)) (\<lambda>_.
              return True))
          | _ \<Rightarrow>
              bind (logging INFO ([CHR 0x1B] @ ''[1;33mNo appointments found for the specified criteria.''
                                    @ [CHR 0x1B] @ ''[0m'')) (\<lambda>_.
              return False)))
       (\<lambda>e. bind (logging ERROR (''Appointment check failed: '' @ str e)) (\<lambda>_. return False)) s"

text \<open>The body of the \<^verbatim>\<open>with\<close> block.\<close>

definition session ::
  "env \<Rightarrow> string option \<Rightarrow> string option \<Rightarrow> string option \<Rightarrow> string option
     \<Rightarrow> (string \<times> string) list \<Rightarrow> pyval io" where
  "session E browser_type vfs_url email_id password appointment_params s =
     bind (browser_launch E browser_type False [''--start-maximized'']) (\<lambda>_.
     bind (external NewPage (new_page E)) (\<lambda>_.
     bind (logging INFO ''New page created'') (\<lambda>_.
     bind (page_goto E vfs_url) (\<lambda>_.
     bind (wait_for_selector E ''div[appcloudflarerecaptcha]'' 300000) (\<lambda>_.
     bind (logging INFO ''Cloudflare challenge detected'') (\<lambda>_.
     bind (wait_for_timeout 5000) (\<lambda>_.
     bind (logging INFO ''Trying pre login steps'') (\<lambda>_.
     bind (external PreLoginSteps (pre_login_steps E)) (\<lambda>_.
     bind (wait_for_timeout 5000) (\<lambda>_.
     bind (logging INFO ''Trying login'') (\<lambda>_.
     bind (try_except
             (bind (external (Login email_id password) (login E email_id password)) (\<lambda>_.
              logging INFO ''Logged in successfully''))
             (\<lambda>_. bind browser_close (\<lambda>_. raise (Exn ''LoginError'' login_failed_message)))) (\<lambda>_.
     bind (logging INFO (''Checking appointments for '' @ repr_dict appointment_params)) (\<lambda>_.
     bind (check_and_notify E appointment_params) (\<lambda>appointment_found.
     bind browser_close (\<lambda>_.
     return (PyBool appointment_found)))))))))))))))) s"

definition run :: "bot \<Rightarrow> env \<Rightarrow> args \<Rightarrow> pyval io" where
  "run B E a s =
     bind (logging INFO (''Starting VFS Bot for '' @ upper (source_country_code B)
                           @ ''-'' @ upper (destination_country_code B))) (\<lambda>_.
       case read_config B E of
         Inl e \<Rightarrow>
           if cls e = ''KeyError''
           then bind (logging ERROR (''Missing configuration value: '' @ str e)) (\<lambda>_. return PyNone)
           else raise e
       | Inr (browser_type, headless_mode, vfs_url) \<Rightarrow>
           bind (lift (read_credentials E)) (\<lambda>(email_id, password).
           bind (get_appointment_params (appointment_param_keys B) a) (\<lambda>appointment_params.
           with_sync_playwright
             (session E browser_type vfs_url email_id password appointment_params)))) s"

text \<open>
  Modelled from the spec: \<^verbatim>\<open>get_config_value\<close> (\<^verbatim>\<open>utils/config_reader.py\<close> is not among
  the sources). The configuration maps a section and a key to a string; a key that is
  absent yields the default when the caller gives one, and is a configuration error
  (the \<^verbatim>\<open>KeyError\<close> that \<^verbatim>\<open>run\<close> catches) otherwise. It is used for concrete runs only.
\<close>

definition config_reader ::
  "(string \<times> string \<Rightarrow> string option) \<Rightarrow> string \<Rightarrow> string \<Rightarrow> string option \<Rightarrow> exn + string option" where
  "config_reader cfg section key dflt =
     (case cfg (section, key) of
        Some v \<Rightarrow> Inr (Some v)
      | None \<Rightarrow> (case dflt of Some d \<Rightarrow> Inr (Some d) | None \<Rightarrow> Inl (Exn ''KeyError'' (repr key))))"

subsection \<open>Reading a run\<close>

text \<open>
  The browser, read off the trace: whether one is running, how many were launched and
  how many were ended. A launch that returns leaves a browser running;
  \<^verbatim>\<open>browser.close()\<close> ends it, and so does stopping Playwright, which takes down a
  browser that is still running. Closing or stopping with no browser running ends
  nothing.
\<close>

record browser =
  running :: bool
  launched :: nat
  ended :: nat

fun browser_step :: "browser \<Rightarrow> event \<Rightarrow> browser" where
  "browser_step b (Launch t h a None) = b\<lparr>running := True, launched := Suc (launched b)\<rparr>"
| "browser_step b BrowserClose =
     (if running b then b\<lparr>running := False, ended := Suc (ended b)\<rparr> else b)"
| "browser_step b PlaywrightStop =
     (if running b then b\<lparr>running := False, ended := Suc (ended b)\<rparr> else b)"
| "browser_step b _ = b"

definition browser_of :: "event list \<Rightarrow> browser" where
  "browser_of evs = foldl browser_step \<lparr>running = False, launched = 0, ended = 0\<rparr> evs"

text \<open>The deliveries attempted, in order: channel and message of every
  \<^verbatim>\<open>send_notification\<close> call.\<close>

fun deliveries :: "event list \<Rightarrow> (string \<times> string) list" where
  "deliveries [] = []"
| "deliveries (SendNotification c m r # evs) = (c, m) # deliveries evs"
| "deliveries (_ # evs) = deliveries evs"

text \<open>The events that can precede the launch of the browser.\<close>

fun before_browser :: "event \<Rightarrow> bool" where
  "before_browser (Log l m) = True"
| "before_browser (Input p l) = True"
| "before_browser PlaywrightStart = True"
| "before_browser _ = False"

text \<open>The events of the notification step.\<close>

fun notification_event :: "event \<Rightarrow> bool" where
  "notification_event (Log l m) = True"
| "notification_event (NotifyAppointment p d) = True"
| "notification_event (GetNotificationClient c r) = True"
| "notification_event (SendNotification c m r) = True"
| "notification_event _ = False"

text \<open>
  What the loop of \<^verbatim>\<open>notify_appointment\<close> appends to the trace and how it ends
  (\<open>None\<close>: it returns), computed from the environment alone; lemma \<open>fan_out_eq\<close> shows
  that the loop does exactly this.
\<close>

fun fan_out_trace :: "env \<Rightarrow> string \<Rightarrow> string list \<Rightarrow> event list" where
  "fan_out_trace E message [] = []"
| "fan_out_trace E message (c # cs) =
     GetNotificationClient c (get_notification_client E c) #
       (case get_notification_client E c of
          Some e \<Rightarrow> []
        | None \<Rightarrow>
            SendNotification c message (send_notification E c message) #
              (case send_notification E c message of
                 None \<Rightarrow> []
               | Some e \<Rightarrow> [Log ERROR (''Failed to send '' @ c @ '' notification'')])
              @ fan_out_trace E message cs)"

fun fan_out_result :: "env \<Rightarrow> string list \<Rightarrow> exn option" where
  "fan_out_result E [] = None"
| "fan_out_result E (c # cs) =
     (case get_notification_client E c of Some e \<Rightarrow> Some e | None \<Rightarrow> fan_out_result E cs)"

text \<open>Nothing but logging and prompting has happened.\<close>

definition fresh :: "world \<Rightarrow> bool" where
  "fresh s = list_all before_browser (trace s)"

text \<open>
  The weakest precondition of a call: \<open>Q\<close> is to hold of the value and the world when
  it returns, \<open>X\<close> of the exception and the world when it raises.
\<close>

definition wp :: "'a io \<Rightarrow> ('a \<Rightarrow> world \<Rightarrow> bool) \<Rightarrow> (exn \<Rightarrow> world \<Rightarrow> bool) \<Rightarrow> world \<Rightarrow> bool" where
  "wp m Q X s = (case m s of (Inl e, s') \<Rightarrow> X e s' | (Inr x, s') \<Rightarrow> Q x s')"
subsection \<open>Invariants of a run\<close>

text \<open>
  Predicates on events and worlds that hold along a run; the proofs below carry them
  from one call of \<^verbatim>\<open>run\<close> to the next.
\<close>

text \<open>After the launch: one browser was launched, and it is running or was ended once.
  At the end of a run: no browser is running, and every browser launched was ended.\<close>

definition closing :: "world \<Rightarrow> bool" where
  "closing s = (launched (browser_of (trace s)) = 1
     \<and> ended (browser_of (trace s)) = (if running (browser_of (trace s)) then 0 else 1))"

definition closed_once :: "world \<Rightarrow> bool" where
  "closed_once s = (\<not> running (browser_of (trace s)) \<and> launched (browser_of (trace s)) \<le> 1
     \<and> ended (browser_of (trace s)) = launched (browser_of (trace s)))"

text \<open>A launch with a window, maximized.\<close>

fun headed_launch :: "event \<Rightarrow> bool" where
  "headed_launch (Launch b h a r) = (\<not> h \<and> a = [''--start-maximized''])"
| "headed_launch _ = True"

text \<open>No \<^verbatim>\<open>login\<close> call has raised, or the run raises \<^verbatim>\<open>LoginError\<close>.\<close>

fun login_returned :: "event \<Rightarrow> bool" where
  "login_returned (Login em pw (Some e)) = False"
| "login_returned _ = True"

definition login_post :: "exn + pyval \<Rightarrow> world \<Rightarrow> bool" where
  "login_post r s = (list_all login_returned (trace s) \<or> r = Inl (Exn ''LoginError'' login_failed_message))"

text \<open>Every appointment check so far has found dates, and nothing of the notification step
  has happened; at the end, either every check found dates or the run returns
  \<^verbatim>\<open>False\<close> without a notification.\<close>

fun dates_found :: "event \<Rightarrow> bool" where
  "dates_found (CheckForAppointment ps (Inr (Some (d # ds)))) = True"
| "dates_found (CheckForAppointment ps r) = False"
| "dates_found _ = True"

fun no_notification :: "event \<Rightarrow> bool" where
  "no_notification (NotifyAppointment p d) = False"
| "no_notification (GetNotificationClient c r) = False"
| "no_notification (SendNotification c m r) = False"
| "no_notification _ = True"

definition check_inv :: "world \<Rightarrow> bool" where
  "check_inv s = (list_all dates_found (trace s) \<and> list_all no_notification (trace s))"

definition check_post :: "exn + pyval \<Rightarrow> world \<Rightarrow> bool" where
  "check_post r s = (list_all dates_found (trace s)
     \<or> r = Inr (PyBool False) \<and> list_all no_notification (trace s))"

text \<open>The wait for the challenge marker: what Playwright raises, the events before the
  wait, and the events of a run that the timeout has ended.\<close>

definition timeout_error :: exn where
  "timeout_error = Exn ''TimeoutError'' ''Timeout exceeded.''"

fun marker_appeared :: "event \<Rightarrow> bool" where
  "marker_appeared (WaitForSelector sel t (Some e)) = False"
| "marker_appeared _ = True"

fun before_wait :: "event \<Rightarrow> bool" where
  "before_wait (WaitForSelector sel t r) = False"
| "before_wait BrowserClose = False"
| "before_wait _ = True"

fun after_timeout :: "event \<Rightarrow> bool" where
  "after_timeout (WaitForSelector sel t r) = (r = Some timeout_error)"
| "after_timeout BrowserClose = False"
| "after_timeout _ = True"

definition wait_inv :: "world \<Rightarrow> bool" where
  "wait_inv s = (list_all before_wait (trace s) \<and> launched (browser_of (trace s)) = 1)"

definition wait_post :: "exn + pyval \<Rightarrow> world \<Rightarrow> bool" where
  "wait_post r s = (list_all marker_appeared (trace s)
     \<or> r = Inl timeout_error \<and> list_all after_timeout (trace s)
         \<and> launched (browser_of (trace s)) = 1)"

text \<open>Every delivery that raised is followed by its error in the log; a run that has
  called \<^verbatim>\<open>notify_appointment\<close> returns \<^verbatim>\<open>True\<close> and has attempted one delivery
  for each configured channel, in order.\<close>

definition failures_logged :: "event list \<Rightarrow> bool" where
  "failures_logged evs =
     (\<forall>c m e. SendNotification c m (Some e) \<in> set evs \<longrightarrow>
        Log ERROR (''Failed to send '' @ c @ '' notification'') \<in> set evs)"

fun delivered :: "event \<Rightarrow> bool" where
  "delivered (SendNotification c m (Some e)) = False"
| "delivered _ = True"

definition fan_out_post :: "string \<Rightarrow> exn + pyval \<Rightarrow> world \<Rightarrow> bool" where
  "fan_out_post ch r s =
     (list_all no_notification (trace s)
      \<or> r = Inr (PyBool True)
          \<and> (\<forall>ps ds. NotifyAppointment ps ds \<in> set (trace s) \<longrightarrow> ch \<noteq> [] \<longrightarrow>
                deliveries (trace s) = map (\<lambda>c. (c, appointment_message ps ds)) (split CHR '','' ch)))"

subsection \<open>Concrete runs\<close>

text \<open>
  Ireland to the Netherlands: a configuration with the URL, the credentials and two
  channels, and no entry for the browser; an adapter with two keys whose every step
  succeeds and that finds two dates.
\<close>

definition example_config :: "string \<times> string \<Rightarrow> string option" where
  "example_config = map_of
     [((''vfs-url'', ''IE-NL''), ''https://visa.example/ie/nl''),
      ((''vfs-credential'', ''email''), ''user@example.org''),
      ((''vfs-credential'', ''password''), ''secret''),
      ((''notification'', ''channels''), ''email,sms'')]"

definition example_bot :: bot where
  "example_bot =
     \<lparr>source_country_code = ''IE'', destination_country_code = ''NL'',
      appointment_param_keys = [''visa_center'', ''visa_category'']\<rparr>"

definition example_env :: env where
  "example_env =
     \<lparr>get_config_value = config_reader example_config,
      launch = None, new_page = None, goto = (\<lambda>_. None), challenge_marker = Some 1000,
      pre_login_steps = None, login = (\<lambda>_ _. None),
      check_for_appontment = (\<lambda>_. Inr (Some [''2024-05-01'', ''2024-05-03''])),
      get_notification_client = (\<lambda>_. None), send_notification = (\<lambda>_ _. None)\<rparr>"

definition example_args :: args where
  "example_args =
     Namespace (AttrDict [''visa_center'' \<mapsto> Some ''Dublin'', ''visa_category'' \<mapsto> Some ''Tourist''])"

text \<open>The same run with one configuration key absent, or with one step failing.\<close>

definition without :: "string \<times> string \<Rightarrow> env" where
  "without k = example_env\<lparr>get_config_value := config_reader (example_config(k := None))\<rparr>"

definition pre_login_fails :: env where
  "pre_login_fails = example_env\<lparr>pre_login_steps := Some (Exn ''TimeoutError'' ''Timeout 30000ms exceeded.'')\<rparr>"

definition login_fails :: env where
  "login_fails = example_env\<lparr>login := (\<lambda>_ _. Some (Exn ''Exception''
     ''Login might have failed or the page is stuck in a loading state.''))\<rparr>"

definition no_dates :: env where
  "no_dates = example_env\<lparr>check_for_appontment := (\<lambda>_. Inr None)\<rparr>"

definition email_fails :: env where
  "email_fails = example_env\<lparr>send_notification :=
     (\<lambda>c m. if c = ''email'' then Some (Exn ''SMTPException'' ''Connection refused'') else None)\<rparr>"

definition no_marker :: env where
  "no_marker = example_env\<lparr>challenge_marker := None\<rparr>"

definition headless_true :: env where
  "headless_true = example_env\<lparr>get_config_value :=
     config_reader (example_config((''browser'', ''headless'') \<mapsto> ''True''))\<rparr>"

definition example_run :: "env \<Rightarrow> (exn + pyval) \<times> world" where
  "example_run E = run example_bot E example_args (initial [])"

section \<open>Properties\<close>

subsection \<open>Weakest preconditions\<close>

lemma wp_return: "wp (return x) Q X s = Q x s"
  by (simp add: wp_def return_def)

lemma wp_raise: "wp (raise e) Q X s = X e s"
  by (simp add: wp_def raise_def)

lemma wp_bind: "wp (bind m f) Q X s = wp m (\<lambda>x. wp (f x) Q X) X s"
  by (simp add: wp_def bind_def split: prod.splits sum.splits)

lemma wp_try_except: "wp (try_except m h) Q X s = wp m Q (\<lambda>e. wp (h e) Q X) s"
  by (simp add: wp_def try_except_def split: prod.splits sum.splits)

lemma wp_emit: "wp (emit ev) Q X s = Q () (s\<lparr>trace := trace s @ [ev]\<rparr>)"
  by (simp add: wp_def emit_def)

lemma wp_logging: "wp (logging l m) Q X s = Q () (s\<lparr>trace := trace s @ [Log l m]\<rparr>)"
  by (simp add: wp_def logging_def emit_def)

lemma wp_wait_for_timeout:
  "wp (wait_for_timeout t) Q X s = Q () (s\<lparr>trace := trace s @ [WaitForTimeout t]\<rparr>)"
  by (simp add: wp_def wait_for_timeout_def emit_def)

lemma wp_browser_close:
  "wp browser_close Q X s = Q () (s\<lparr>trace := trace s @ [BrowserClose]\<rparr>)"
  by (simp add: wp_def browser_close_def emit_def)

lemma wp_outcome: "wp (outcome r) Q X s = (case r of None \<Rightarrow> Q () s | Some e \<Rightarrow> X e s)"
  by (simp add: wp_def outcome_def return_def raise_def split: option.splits)

lemma wp_lift: "wp (lift r) Q X s = (case r of Inl e \<Rightarrow> X e s | Inr x \<Rightarrow> Q x s)"
  by (simp add: wp_def lift_def return_def raise_def split: sum.splits)

lemma wp_external:
  "wp (external ev r) Q X s =
     (case r of None \<Rightarrow> Q () (s\<lparr>trace := trace s @ [ev None]\<rparr>)
              | Some e \<Rightarrow> X e (s\<lparr>trace := trace s @ [ev (Some e)]\<rparr>))"
  by (simp add: wp_def external_def bind_def emit_def outcome_def return_def raise_def split: option.splits)

lemma wp_with_sync_playwright:
  "wp (with_sync_playwright body) Q X s =
     wp body (\<lambda>x s'. Q x (playwright_stop s')) (\<lambda>e s'. X e (playwright_stop s'))
        (s\<lparr>trace := trace s @ [PlaywrightStart]\<rparr>)"
  by (simp add: wp_def with_sync_playwright_def split: prod.splits sum.splits)

lemma wp_input:
  "wp (input p) Q X s =
     (case stdin s of
        [] \<Rightarrow> X (Exn ''EOFError'' ''EOF when reading a line'') (s\<lparr>trace := trace s @ [Input p None]\<rparr>)
      | l # ls \<Rightarrow> Q l (s\<lparr>trace := trace s @ [Input p (Some l)], stdin := ls\<rparr>))"
  by (simp add: wp_def input_def split: list.splits)

lemma wpD: "wp m Q X s \<Longrightarrow> m s = (r, s') \<Longrightarrow> (case r of Inl e \<Rightarrow> X e s' | Inr x \<Rightarrow> Q x s')"
  by (simp add: wp_def)

lemma wp_conseq:
  "wp m Q' X' s \<Longrightarrow> (\<And>x s'. Q' x s' \<Longrightarrow> Q x s') \<Longrightarrow> (\<And>e s'. X' e s' \<Longrightarrow> X e s') \<Longrightarrow> wp m Q X s"
  by (auto simp: wp_def split: prod.splits sum.splits)

lemma wp_unfold: "m = m' \<Longrightarrow> wp m Q X s = wp m' Q X s"
  by simp

lemma fan_out_eq:
  "fan_out E m cs s =
     ((case fan_out_result E cs of None \<Rightarrow> Inr () | Some e \<Rightarrow> Inl e),
      s\<lparr>trace := trace s @ fan_out_trace E m cs\<rparr>)"
proof (induction cs arbitrary: s)
  case Nil
  show ?case by (simp add: return_def)
next
  case (Cons c cs)
  show ?case
    by (simp add: bind_def emit_def outcome_def return_def raise_def try_except_def logging_def
          external_def Cons.IH split: option.splits)
qed

lemma wp_fan_out:
  "wp (fan_out E m cs) Q X s =
     (case fan_out_result E cs of
        None \<Rightarrow> Q () (s\<lparr>trace := trace s @ fan_out_trace E m cs\<rparr>)
      | Some e \<Rightarrow> X e (s\<lparr>trace := trace s @ fan_out_trace E m cs\<rparr>))"
  by (simp add: wp_def fan_out_eq split: option.splits)

lemma wp_cong_fun: "(\<And>s. m s = m' s) \<Longrightarrow> wp m Q X s = wp m' Q X s"
  by (simp add: wp_def)

lemmas wp_session = wp_cong_fun [of "session E bt url em pw ps", OF session_def] for E bt url em pw ps
lemmas wp_check_and_notify = wp_cong_fun [of "check_and_notify E ps", OF check_and_notify_def] for E ps

lemma wp_page_goto:
  "wp (page_goto E url) Q X s =
     (case goto E url of None \<Rightarrow> Q () (s\<lparr>trace := trace s @ [Goto url None]\<rparr>)
                       | Some e \<Rightarrow> X e (s\<lparr>trace := trace s @ [Goto url (Some e)]\<rparr>))"
  using wp_cong_fun [of "page_goto E url", OF page_goto_def] by (simp add: wp_external)

lemma wp_wait_for_selector:
  "wp (wait_for_selector E sel t) Q X s =
     (case marker_wait E t of
        None \<Rightarrow> Q () (s\<lparr>trace := trace s @ [WaitForSelector sel t None]\<rparr>)
      | Some e \<Rightarrow> X e (s\<lparr>trace := trace s @ [WaitForSelector sel t (Some e)]\<rparr>))"
  using wp_cong_fun [of "wait_for_selector E sel t", OF wait_for_selector_def] by (simp add: wp_external)

lemma wp_browser_launch:
  "wp (browser_launch E bt h a) Q X s =
     (case bt of
        None \<Rightarrow> X (Exn ''TypeError'' (''attribute name must be string, not '' @ repr ''NoneType'')) s
      | Some b \<Rightarrow>
          if b \<notin> engines
          then X (Exn ''AttributeError''
                    (repr ''Playwright'' @ '' object has no attribute '' @ repr b)) s
          else (case launch E of
                  None \<Rightarrow> Q () (s\<lparr>trace := trace s @ [Launch b h a None]\<rparr>)
                | Some e \<Rightarrow> X e (s\<lparr>trace := trace s @ [Launch b h a (Some e)]\<rparr>)))"
  by (simp add: wp_def browser_launch_def external_def bind_def emit_def outcome_def return_def raise_def
        split: option.splits)

lemma wp_notify_appointment:
  "wp (notify_appointment E ps ds) Q X s =
     (let s1 = s\<lparr>trace := trace s @ [NotifyAppointment ps ds]\<rparr> in
      case get_config_value E ''notification'' ''channels'' None of
        Inl e \<Rightarrow> X e s1
      | Inr None \<Rightarrow> X (Exn ''TypeError'' (''object of type '' @ repr ''NoneType'' @ '' has no len()'')) s1
      | Inr (Some ch) \<Rightarrow>
          if ch = []
          then Q () (s1\<lparr>trace := trace s1 @
                 [Log WARNING ''No notification channels configured. Skipping notification.'']\<rparr>)
          else (case fan_out_result E (split CHR '','' ch) of
                  None \<Rightarrow> Q () (s1\<lparr>trace := trace s1 @
                             fan_out_trace E (appointment_message ps ds) (split CHR '','' ch)\<rparr>)
                | Some e \<Rightarrow> X e (s1\<lparr>trace := trace s1 @
                             fan_out_trace E (appointment_message ps ds) (split CHR '','' ch)\<rparr>)))"
  using wp_cong_fun [of "notify_appointment E ps ds", OF notify_appointment_def]
  by (simp add: Let_def wp_bind wp_emit wp_lift wp_raise wp_logging wp_fan_out
        split: sum.splits option.splits)

lemmas wp_simps = wp_return wp_raise wp_bind wp_try_except wp_emit wp_logging wp_wait_for_timeout
  wp_browser_close wp_outcome wp_lift wp_external wp_input wp_fan_out wp_page_goto
  wp_wait_for_selector wp_browser_launch wp_notify_appointment wp_with_sync_playwright

lemma wp_seq:
  assumes "wp m R X s" and "\<And>x s'. R x s' \<Longrightarrow> wp (f x) Q X s'"
  shows "wp (bind m f) Q X s"
  unfolding wp_bind by (rule wp_conseq [OF assms(1)]) (simp_all add: assms(2))

lemma wp_try:
  assumes "wp m Q R s" and "\<And>e s'. R e s' \<Longrightarrow> wp (h e) Q X s'"
  shows "wp (try_except m h) Q X s"
  unfolding wp_try_except by (rule wp_conseq [OF assms(1)]) (simp_all add: assms(2))

lemma browser_of_append: "browser_of (xs @ ys) = foldl browser_step (browser_of xs) ys"
  by (simp add: browser_of_def)

lemma foldl_notification: "list_all notification_event evs \<Longrightarrow> foldl browser_step b evs = b"
proof (induction evs arbitrary: b)
  case Nil
  show ?case by simp
next
  case (Cons ev evs)
  from Cons.prems have "browser_step b ev = b" by (cases ev) simp_all
  with Cons show ?case by simp
qed

lemma fan_out_trace_notification: "list_all notification_event (fan_out_trace E m cs)"
  by (induction cs) (simp_all split: option.splits)

lemma foldl_fan_out [simp]: "foldl browser_step b (fan_out_trace E m cs) = b"
  by (simp add: foldl_notification fan_out_trace_notification)

lemma foldl_before_browser: "list_all before_browser evs \<Longrightarrow> foldl browser_step b evs = b"
proof (induction evs arbitrary: b)
  case Nil
  show ?case by simp
next
  case (Cons ev evs)
  from Cons.prems have "browser_step b ev = b" by (cases ev) simp_all
  with Cons show ?case by simp
qed

lemma fresh_browser: "fresh s \<Longrightarrow> browser_of (trace s) = \<lparr>running = False, launched = 0, ended = 0\<rparr>"
  by (simp add: fresh_def browser_of_def foldl_before_browser)

lemma run_post:
  assumes "wp (run B E a) (\<lambda>x. Post (Inr x)) (\<lambda>e. Post (Inl e)) s0" and "run B E a s0 = (r, s)"
  shows "Post r s"
  using wpD [OF assms] by (cases r) auto

lemma fresh_snoc: "fresh s \<Longrightarrow> before_browser ev \<Longrightarrow> fresh (s\<lparr>trace := trace s @ [ev]\<rparr>)"
  by (simp add: fresh_def)

lemma fresh_stdin: "fresh (s\<lparr>stdin := ls\<rparr>) = fresh s"
  by (simp add: fresh_def)

lemma fresh_initial: "fresh (initial inp)"
  by (simp add: fresh_def initial_def)

lemmas wp_collect_Nil = wp_cong_fun [of "collect [] a acc", OF collect.simps(1)] for a acc
lemmas wp_collect_Cons = wp_cong_fun [of "collect (key # keys) a acc", OF collect.simps(2)] for key keys a acc

lemma wp_getattr:
  "wp (getattr_appointment_params a) Q X s =
     (case a of
        ArgsNone \<Rightarrow> X (Exn ''AttributeError''
                     (repr ''NoneType'' @ '' object has no attribute '' @ repr ''appointment_params'')) s
      | Namespace NoAttribute \<Rightarrow> X (Exn ''AttributeError''
                     (repr ''Namespace'' @ '' object has no attribute '' @ repr ''appointment_params'')) s
      | Namespace at \<Rightarrow> Q at s)"
  by (simp add: wp_def getattr_appointment_params_def return_def raise_def
        split: args.splits attribute.splits)

lemma wp_subscript:
  "wp (subscript d key) Q X s =
     (case d key of None \<Rightarrow> X (Exn ''KeyError'' (repr key)) s | Some v \<Rightarrow> Q v s)"
  by (simp add: wp_def subscript_def return_def raise_def split: option.splits)

lemma wp_prompt_for:
  "wp (prompt_for key) Q X s =
     wp (input (''Enter the '' @ replace CHR ''_'' CHR '' '' key @ '': '')) Q X s"
  by (simp add: wp_def prompt_for_def)

lemma collect_fresh:
  "fresh s \<Longrightarrow> wp (collect keys a acc) (\<lambda>_. fresh) (\<lambda>_. fresh) s"
proof (induction keys arbitrary: acc s)
  case Nil
  then show ?case by (simp add: wp_collect_Nil wp_return)
next
  case (Cons key keys)
  show ?case
    using Cons.IH Cons.prems
    by (auto simp: wp_collect_Cons wp_bind wp_getattr wp_subscript wp_prompt_for wp_input
                   fresh_snoc fresh_stdin
          split: args.splits attribute.splits option.splits list.splits)
qed

lemmas wp_run = wp_cong_fun [of "run B E a", OF run_def] for B E a
lemmas wp_get_appointment_params =
  wp_cong_fun [of "get_appointment_params keys a", OF get_appointment_params_def] for keys a

lemma run_rule:
  assumes abort: "\<And>s. fresh s \<Longrightarrow> Post (Inr PyNone) s"
    and early: "\<And>e s. fresh s \<Longrightarrow> Post (Inl e) s"
    and sess: "\<And>bt hm url em pw ps s.
        read_config B E = Inr (bt, hm, url) \<Longrightarrow> read_credentials E = Inr (em, pw) \<Longrightarrow> fresh s \<Longrightarrow>
        wp (session E bt url em pw ps)
           (\<lambda>x s'. Post (Inr x) (playwright_stop s')) (\<lambda>e s'. Post (Inl e) (playwright_stop s')) s"
  shows "wp (run B E a) (\<lambda>x. Post (Inr x)) (\<lambda>e. Post (Inl e)) (initial inp)"
proof -
  define s1 where "s1 = initial inp\<lparr>trace := trace (initial inp) @
      [Log INFO (''Starting VFS Bot for '' @ upper (source_country_code B)
                           @ ''-'' @ upper (destination_country_code B))]\<rparr>"
  have f1: "fresh s1" unfolding s1_def by (intro fresh_snoc fresh_initial) simp
  have goal: "wp (run B E a) (\<lambda>x. Post (Inr x)) (\<lambda>e. Post (Inl e)) (initial inp) =
      (case read_config B E of
         Inl e \<Rightarrow>
           if cls e = ''KeyError''
           then Post (Inr PyNone) (s1\<lparr>trace := trace s1 @ [Log ERROR (''Missing configuration value: '' @ str e)]\<rparr>)
           else Post (Inl e) s1
       | Inr (bt, hm, url) \<Rightarrow>
           (case read_credentials E of
              Inl e \<Rightarrow> Post (Inl e) s1
            | Inr (em, pw) \<Rightarrow>
                wp (collect (appointment_param_keys B) a [])
                  (\<lambda>ps. wp (with_sync_playwright (session E bt url em pw ps)) (\<lambda>x. Post (Inr x)) (\<lambda>e. Post (Inl e)))
                  (\<lambda>e. Post (Inl e)) s1))"
    unfolding s1_def wp_run wp_bind wp_logging
    by (simp add: wp_bind wp_logging wp_return wp_raise wp_lift wp_get_appointment_params
          split: sum.splits prod.splits)
  show ?thesis
  proof (cases "read_config B E")
    case (Inl e)
    have "fresh (s1\<lparr>trace := trace s1 @ [Log ERROR (''Missing configuration value: '' @ str e)]\<rparr>)"
      by (intro fresh_snoc f1) simp
    with f1 Inl show ?thesis
      unfolding goal by (simp add: abort early)
  next
    case (Inr c)
    obtain bt hm url where c: "c = (bt, hm, url)" by (cases c) auto
    show ?thesis
    proof (cases "read_credentials E")
      case (Inl e)
      with Inr c f1 show ?thesis unfolding goal by (simp add: early)
    next
      case cr: (Inr d)
      obtain em pw where d: "d = (em, pw)" by (cases d) auto
      have "wp (collect (appointment_param_keys B) a [])
              (\<lambda>ps. wp (with_sync_playwright (session E bt url em pw ps)) (\<lambda>x. Post (Inr x)) (\<lambda>e. Post (Inl e)))
              (\<lambda>e. Post (Inl e)) s1"
      proof (rule wp_conseq [OF collect_fresh [OF f1]])
        fix ps :: "(string \<times> string) list" and s'
        assume "fresh s'"
        then have "fresh (s'\<lparr>trace := trace s' @ [PlaywrightStart]\<rparr>)" by (intro fresh_snoc) simp_all
        then show "wp (with_sync_playwright (session E bt url em pw ps)) (\<lambda>x. Post (Inr x)) (\<lambda>e. Post (Inl e)) s'"
          using sess [OF Inr [unfolded c] cr [unfolded d]] by (simp add: wp_with_sync_playwright)
      next
        fix e s' assume "fresh s'" then show "Post (Inl e) s'" by (rule early)
      qed
      with Inr c cr d show ?thesis unfolding goal by simp
    qed
  qed
qed

subsection \<open>Evaluating the concrete runs\<close>

lemmas run_simps = bind_def return_def raise_def try_except_def emit_def outcome_def lift_def
  logging_def external_def browser_launch_def engines_def browser_close_def page_goto_def
  wait_for_selector_def marker_wait_def wait_for_timeout_def initial_def
  session_def check_and_notify_def notify_appointment_def run_def with_sync_playwright_def
  playwright_stop_def get_appointment_params_def getattr_appointment_params_def subscript_def
  prompt_for_def input_def read_config_def read_credentials_def config_reader_def Let_def
  example_env_def example_config_def example_bot_def example_args_def browser_of_def
  without_def pre_login_fails_def login_fails_def no_dates_def email_fails_def no_marker_def
  headless_true_def

lemma example_run: "run example_bot E example_args (initial []) = (fst (example_run E), snd (example_run E))"
  by (simp add: example_run_def)

subsection \<open>The browser session is closed once\<close>

lemma closing_check: "closing s \<Longrightarrow> wp (check_and_notify E ps) (\<lambda>_. closing) X s"
  unfolding closing_def
  by (simp add: wp_check_and_notify wp_simps Let_def browser_of_append
        split: option.splits sum.splits list.splits)

lemma session_closes:
  assumes "fresh s"
  shows "wp (session E bt url em pw ps) (\<lambda>_ s'. closed_once (playwright_stop s'))
            (\<lambda>_ s'. closed_once (playwright_stop s')) s"
  unfolding wp_session
  apply (rule wp_seq [where R = "\<lambda>_. closing"])
  subgoal using assms
    by (simp add: wp_simps closing_def closed_once_def playwright_stop_def browser_of_append fresh_browser
          split: option.splits)
  apply (intro wp_seq [where R = "\<lambda>_. closing"] closing_check)
  apply (simp_all add: wp_simps closing_def closed_once_def playwright_stop_def browser_of_append
        split: option.splits)
  done

lemma fresh_closed_once: "fresh s \<Longrightarrow> closed_once s"
  by (simp add: closed_once_def fresh_browser)

lemma run_closes:
  assumes "run B E a (initial inp) = (r, s)"
  shows "closed_once s"
proof -
  have "wp (run B E a) (\<lambda>x. closed_once) (\<lambda>e. closed_once) (initial inp)"
    by (rule run_rule [where Post = "\<lambda>_. closed_once"]) (simp_all add: fresh_closed_once session_closes)
  from run_post [where Post = "\<lambda>_. closed_once", OF this assms] show ?thesis .
qed

text \<open>
  C1. For every run that opens a browser session, the session is closed exactly once
  before \<^verbatim>\<open>run\<close> returns or raises, on every exit path: in the final world of any run
  that launched a browser, exactly one browser was launched, exactly one was ended and
  none is running. The session is ended by \<^verbatim>\<open>browser.close()\<close> where the run reaches
  it (normal completion, failed login, failed appointment check), and by the exit of
  the \<^verbatim>\<open>with\<close> block otherwise (navigation, challenge wait, pre-login).
\<close>

theorem session_closed_exactly_once:
  assumes "run B E a (initial inp) = (r, s)" and "0 < launched (browser_of (trace s))"
  shows "launched (browser_of (trace s)) = 1 \<and> ended (browser_of (trace s)) = 1
           \<and> \<not> running (browser_of (trace s))"
  using run_closes [OF assms(1)] assms(2) by (auto simp: closed_once_def)

theorem session_closed_exactly_once_witness:
  "launched (browser_of (trace (snd (example_run pre_login_fails)))) = 1
   \<and> ended (browser_of (trace (snd (example_run pre_login_fails)))) = 1
   \<and> \<not> running (browser_of (trace (snd (example_run pre_login_fails))))"
proof -
  have h: "0 < launched (browser_of (trace (snd (example_run pre_login_fails))))"
    by (simp add: example_run_def run_simps)
  from session_closed_exactly_once [OF example_run h] show ?thesis .
qed

subsection \<open>Events that leave an invariant alone\<close>

lemma notification_headed: "notification_event ev \<Longrightarrow> headed_launch ev"
  by (cases ev) simp_all

lemma notification_login_returned: "notification_event ev \<Longrightarrow> login_returned ev"
  by (cases ev) simp_all

lemma before_browser_headed: "before_browser ev \<Longrightarrow> headed_launch ev"
  by (cases ev) simp_all

lemma before_browser_login_returned: "before_browser ev \<Longrightarrow> login_returned ev"
  by (cases ev) simp_all

lemma list_all_mono: "list_all P xs \<Longrightarrow> (\<And>x. P x \<Longrightarrow> Q x) \<Longrightarrow> list_all Q xs"
  by (induction xs) auto

lemma list_all_mem: "list_all P xs \<Longrightarrow> x \<in> set xs \<Longrightarrow> P x"
  by (induction xs) auto

lemma fan_out_headed [simp]: "list_all headed_launch (fan_out_trace E m cs)"
  by (rule list_all_mono [OF fan_out_trace_notification notification_headed])

lemma fan_out_login_returned [simp]: "list_all login_returned (fan_out_trace E m cs)"
  by (rule list_all_mono [OF fan_out_trace_notification notification_login_returned])

lemma headed_check:
  "list_all headed_launch (trace s) \<Longrightarrow>
   wp (check_and_notify E ps) (\<lambda>_ s'. list_all headed_launch (trace s')) X s"
  by (simp add: wp_check_and_notify wp_simps Let_def split: option.splits sum.splits list.splits)

lemma session_headed:
  assumes "list_all headed_launch (trace s)"
  shows "wp (session E bt url em pw ps) (\<lambda>_ s'. list_all headed_launch (trace (playwright_stop s')))
            (\<lambda>_ s'. list_all headed_launch (trace (playwright_stop s'))) s"
  unfolding wp_session using assms
  apply (intro wp_seq [where R = "\<lambda>_ s'. list_all headed_launch (trace s')"] headed_check)
  apply (simp_all add: wp_simps playwright_stop_def split: option.splits)
  done

lemma run_headed:
  assumes "run B E a (initial inp) = (r, s)"
  shows "list_all headed_launch (trace s)"
proof -
  have fr: "list_all headed_launch (trace s)" if "fresh s" for s
    using that unfolding fresh_def by (rule list_all_mono) (rule before_browser_headed)
  have "wp (run B E a) (\<lambda>x s. list_all headed_launch (trace s)) (\<lambda>e s. list_all headed_launch (trace s)) (initial inp)"
    by (rule run_rule [where Post = "\<lambda>_ s. list_all headed_launch (trace s)"])
       (simp_all add: fr session_headed)
  from run_post [where Post = "\<lambda>_ s. list_all headed_launch (trace s)", OF this assms] show ?thesis .
qed

subsection \<open>The launch\<close>

text \<open>
  C9 (amended). For every run, a browser is launched with \<^verbatim>\<open>headless=False\<close> and the
  argument \<^verbatim>\<open>--start-maximized\<close>, whatever the configuration says about
  \<^verbatim>\<open>browser.headless\<close>.
\<close>

theorem browser_launched_headed:
  assumes "run B E a (initial inp) = (r, s)" and "Launch b h args out \<in> set (trace s)"
  shows "h = False \<and> args = [''--start-maximized'']"
  using run_headed [OF assms(1)] assms(2) by (auto simp: list_all_iff)

theorem browser_launched_headed_witness:
  "Launch ''firefox'' False [''--start-maximized''] None \<in> set (trace (snd (example_run example_env)))
   \<and> False = False \<and> [''--start-maximized''] = [''--start-maximized'']"
proof -
  have h: "Launch ''firefox'' False [''--start-maximized''] None \<in> set (trace (snd (example_run example_env)))"
    by (simp add: example_run_def run_simps)
  from browser_launched_headed [OF example_run h] h show ?thesis by simp
qed

theorem headless_ignored_counterexample:
  "get_config_value headless_true ''browser'' ''headless'' (Some ''True'') = Inr (Some ''True'')
   \<and> Launch ''firefox'' False [''--start-maximized''] None \<in> set (trace (snd (example_run headless_true)))"
  by (simp add: example_run_def run_simps)

subsection \<open>A failed login\<close>

lemma login_check:
  "list_all login_returned (trace s) \<Longrightarrow>
   wp (check_and_notify E ps) (\<lambda>_ s'. list_all login_returned (trace s')) X s"
  by (simp add: wp_check_and_notify wp_simps Let_def split: option.splits sum.splits list.splits)

lemma session_login:
  assumes "list_all login_returned (trace s)"
  shows "wp (session E bt url em pw ps) (\<lambda>x s'. login_post (Inr x) (playwright_stop s'))
            (\<lambda>e s'. login_post (Inl e) (playwright_stop s')) s"
  unfolding wp_session using assms
  apply (intro wp_seq [where R = "\<lambda>_ s'. list_all login_returned (trace s')"] login_check)
  apply (simp_all add: wp_simps playwright_stop_def login_post_def split: option.splits)
  done

text \<open>
  C6. For every run in which the adapter's \<^verbatim>\<open>login\<close> raises, whatever the exception,
  \<^verbatim>\<open>run\<close> raises \<^verbatim>\<open>LoginError\<close> with the message that asks the user to verify the
  username and the password.
\<close>

theorem login_failure_raises_LoginError:
  assumes "run B E a (initial inp) = (r, s)" and "Login em pw (Some e) \<in> set (trace s)"
  shows "r = Inl (Exn ''LoginError'' login_failed_message)"
proof -
  have fr: "login_post r s" if "fresh s" for r s
    using that unfolding fresh_def login_post_def
    by (intro disjI1, rule list_all_mono) (rule before_browser_login_returned)
  have "wp (run B E a) (\<lambda>x. login_post (Inr x)) (\<lambda>e. login_post (Inl e)) (initial inp)"
  proof (rule run_rule [where Post = login_post])
    fix bt hm url em pw ps s assume "fresh s"
    then have "list_all login_returned (trace s)"
      unfolding fresh_def by (rule list_all_mono) (rule before_browser_login_returned)
    then show "wp (session E bt url em pw ps) (\<lambda>x s'. login_post (Inr x) (playwright_stop s'))
            (\<lambda>e s'. login_post (Inl e) (playwright_stop s')) s"
      by (rule session_login)
  qed (simp_all add: fr)
  from run_post [where Post = login_post, OF this assms(1)] have "login_post r s" .
  moreover have "\<not> list_all login_returned (trace s)"
  proof
    assume "list_all login_returned (trace s)"
    from list_all_mem [OF this assms(2)] have "login_returned (Login em pw (Some e))" .
    then show False by simp
  qed
  ultimately show ?thesis by (simp add: login_post_def)
qed

theorem login_failure_raises_LoginError_witness:
  "Login (Some ''user@example.org'') (Some ''secret'')
     (Some (Exn ''Exception'' ''Login might have failed or the page is stuck in a loading state.''))
     \<in> set (trace (snd (example_run login_fails)))
   \<and> fst (example_run login_fails) = Inl (Exn ''LoginError'' login_failed_message)"
proof -
  have h: "Login (Some ''user@example.org'') (Some ''secret'')
     (Some (Exn ''Exception'' ''Login might have failed or the page is stuck in a loading state.''))
     \<in> set (trace (snd (example_run login_fails)))"
    by (simp add: example_run_def run_simps)
  from login_failure_raises_LoginError [OF example_run h] h show ?thesis by simp
qed

subsection \<open>An appointment check without dates\<close>

lemma deliveries_append [simp]: "deliveries (xs @ ys) = deliveries xs @ deliveries ys"
  by (induction xs rule: deliveries.induct) simp_all

lemma no_notification_deliveries: "list_all no_notification evs \<Longrightarrow> deliveries evs = []"
  by (induction evs rule: deliveries.induct) simp_all

lemma before_browser_dates_found: "before_browser ev \<Longrightarrow> dates_found ev"
  by (cases ev) simp_all

lemma before_browser_no_notification: "before_browser ev \<Longrightarrow> no_notification ev"
  by (cases ev) simp_all

lemma fan_out_dates_found [simp]: "list_all dates_found (fan_out_trace E m cs)"
  by (rule list_all_mono [OF fan_out_trace_notification]) (case_tac x, simp_all)

lemma check_tail:
  "check_inv s \<Longrightarrow>
   wp (bind (check_and_notify E ps) (\<lambda>found. bind browser_close (\<lambda>_. return (PyBool found))))
      (\<lambda>x s'. check_post (Inr x) (playwright_stop s')) X s"
  by (simp add: wp_check_and_notify wp_simps Let_def check_inv_def check_post_def playwright_stop_def
        split: option.splits sum.splits list.splits)

lemma session_check:
  assumes "check_inv s"
  shows "wp (session E bt url em pw ps) (\<lambda>x s'. check_post (Inr x) (playwright_stop s'))
            (\<lambda>e s'. check_post (Inl e) (playwright_stop s')) s"
  unfolding wp_session using assms
  apply (intro check_tail wp_seq [where R = "\<lambda>_. check_inv"])
  apply (simp_all add: wp_simps playwright_stop_def check_post_def check_inv_def split: option.splits)
  done

text \<open>
  C4. For every run in which \<^verbatim>\<open>check_for_appontment\<close> returns \<^verbatim>\<open>None\<close> or an empty
  list, or raises, \<^verbatim>\<open>notify_appointment\<close> is never called, no delivery is attempted,
  and \<^verbatim>\<open>run\<close> returns \<^verbatim>\<open>False\<close>: no exception of the check escapes.
\<close>

theorem empty_check_returns_false:
  assumes "run B E a (initial inp) = (r, s)"
    and "CheckForAppointment ps out \<in> set (trace s)"
    and "out = Inr None \<or> out = Inr (Some []) \<or> (\<exists>e. out = Inl e)"
  shows "r = Inr (PyBool False) \<and> (\<forall>p d. NotifyAppointment p d \<notin> set (trace s))
           \<and> deliveries (trace s) = []"
proof -
  have inv: "check_inv s" if "fresh s" for s
    using that unfolding fresh_def check_inv_def
    by (auto intro: list_all_mono before_browser_dates_found before_browser_no_notification)
  have "wp (run B E a) (\<lambda>x. check_post (Inr x)) (\<lambda>e. check_post (Inl e)) (initial inp)"
  proof (rule run_rule [where Post = check_post])
    fix bt hm url em pw ps s assume "fresh s"
    then show "wp (session E bt url em pw ps) (\<lambda>x s'. check_post (Inr x) (playwright_stop s'))
            (\<lambda>e s'. check_post (Inl e) (playwright_stop s')) s"
      by (intro session_check inv)
  next
    fix s assume "fresh s" from inv [OF this] show "check_post (Inr PyNone) s"
      by (simp add: check_post_def check_inv_def)
  next
    fix e s assume "fresh s" from inv [OF this] show "check_post (Inl e) s"
      by (simp add: check_post_def check_inv_def)
  qed
  from run_post [where Post = check_post, OF this assms(1)] have post: "check_post r s" .
  have "\<not> list_all dates_found (trace s)"
  proof
    assume "list_all dates_found (trace s)"
    from list_all_mem [OF this assms(2)] have "dates_found (CheckForAppointment ps out)" .
    with assms(3) show False by auto
  qed
  with post have r: "r = Inr (PyBool False)" and nn: "list_all no_notification (trace s)"
    by (simp_all add: check_post_def)
  have "NotifyAppointment p d \<notin> set (trace s)" for p d
  proof
    assume "NotifyAppointment p d \<in> set (trace s)"
    from list_all_mem [OF nn this] have "no_notification (NotifyAppointment p d)" .
    then show False by simp
  qed
  with r nn show ?thesis by (simp add: no_notification_deliveries)
qed

theorem empty_check_returns_false_witness:
  "CheckForAppointment [(''visa_center'', ''Dublin''), (''visa_category'', ''Tourist'')] (Inr None)
     \<in> set (trace (snd (example_run no_dates)))
   \<and> fst (example_run no_dates) = Inr (PyBool False)
   \<and> deliveries (trace (snd (example_run no_dates))) = []"
proof -
  have h: "CheckForAppointment [(''visa_center'', ''Dublin''), (''visa_category'', ''Tourist'')] (Inr None)
     \<in> set (trace (snd (example_run no_dates)))"
    by (simp add: example_run_def run_simps)
  from empty_check_returns_false [OF example_run h] h show ?thesis by simp
qed

subsection \<open>The challenge wait\<close>

lemma before_wait_marker_appeared: "before_wait ev \<Longrightarrow> marker_appeared ev"
  by (cases ev) simp_all

lemma before_wait_after_timeout: "before_wait ev \<Longrightarrow> after_timeout ev"
  by (cases ev) simp_all

lemma before_browser_before_wait: "before_browser ev \<Longrightarrow> before_wait ev"
  by (cases ev) simp_all

lemma marker_wait_cases: "marker_wait E t = None \<or> marker_wait E t = Some timeout_error"
  by (simp add: marker_wait_def timeout_error_def split: option.splits)

lemma fan_out_marker_appeared [simp]: "list_all marker_appeared (fan_out_trace E m cs)"
  by (rule list_all_mono [OF fan_out_trace_notification]) (case_tac x, simp_all)

lemma marker_check:
  "list_all marker_appeared (trace s) \<Longrightarrow>
   wp (check_and_notify E ps) (\<lambda>_ s'. list_all marker_appeared (trace s')) X s"
  by (simp add: wp_check_and_notify wp_simps Let_def split: option.splits sum.splits list.splits)

lemma session_wait:
  assumes "fresh s"
  shows "wp (session E bt url em pw ps) (\<lambda>x s'. wait_post (Inr x) (playwright_stop s'))
            (\<lambda>e s'. wait_post (Inl e) (playwright_stop s')) s"
proof -
  from assms have b: "list_all before_wait (trace s)"
    unfolding fresh_def by (rule list_all_mono) (rule before_browser_before_wait)
  note defs = wp_simps playwright_stop_def wait_post_def wait_inv_def browser_of_append
  have ma: "list_all marker_appeared (trace s')" if "list_all before_wait (trace s')" for s'
    using that by (rule list_all_mono) (rule before_wait_marker_appeared)
  have at: "list_all after_timeout (trace s')" if "list_all before_wait (trace s')" for s'
    using that by (rule list_all_mono) (rule before_wait_after_timeout)
  show ?thesis
    unfolding wp_session
    apply (rule wp_seq [where R = "\<lambda>_. wait_inv"])
    subgoal using b ma [OF b] fresh_browser [OF assms] by (simp add: defs split: option.splits)
    apply (rule wp_seq [where R = "\<lambda>_. wait_inv"])
    subgoal by (simp add: defs ma split: option.splits)
    apply (rule wp_seq [where R = "\<lambda>_. wait_inv"])
    subgoal by (simp add: defs ma split: option.splits)
    apply (rule wp_seq [where R = "\<lambda>_. wait_inv"])
    subgoal by (simp add: defs ma split: option.splits)
    apply (rule wp_seq [where R = "\<lambda>_ s'. list_all marker_appeared (trace s')"])
    subgoal for _ _ _ _ s'
      using marker_wait_cases [of E 300000] by (auto simp: defs ma at)
    apply (intro wp_seq [where R = "\<lambda>_ s'. list_all marker_appeared (trace s')"] marker_check)
    apply (simp_all add: defs split: option.splits)
    done
qed

text \<open>
  C8 (amended). For every run in which the challenge marker does not appear within the
  wait, the wait raises Playwright's \<^verbatim>\<open>TimeoutError\<close>, which leaves \<^verbatim>\<open>run\<close> as it is;
  \<^verbatim>\<open>browser.close()\<close> is not called, and the browser launched is ended, once, by the
  exit of the \<^verbatim>\<open>with\<close> block before the exception leaves \<^verbatim>\<open>run\<close>.
\<close>

theorem challenge_timeout_propagates:
  assumes "run B E a (initial inp) = (r, s)"
    and "WaitForSelector sel t (Some e) \<in> set (trace s)"
  shows "r = Inl e \<and> e = Exn ''TimeoutError'' ''Timeout exceeded.''
           \<and> BrowserClose \<notin> set (trace s)
           \<and> launched (browser_of (trace s)) = 1 \<and> ended (browser_of (trace s)) = 1
           \<and> \<not> running (browser_of (trace s))"
proof -
  have fr: "wait_post r s" if "fresh s" for r s
    using that unfolding fresh_def wait_post_def
    by (intro disjI1, rule list_all_mono) (case_tac x, simp_all)
  have "wp (run B E a) (\<lambda>x. wait_post (Inr x)) (\<lambda>e. wait_post (Inl e)) (initial inp)"
    by (rule run_rule [where Post = wait_post]) (simp_all add: fr session_wait)
  from run_post [where Post = wait_post, OF this assms(1)] have post: "wait_post r s" .
  have "\<not> list_all marker_appeared (trace s)"
  proof
    assume "list_all marker_appeared (trace s)"
    from list_all_mem [OF this assms(2)] show False by simp
  qed
  with post have r: "r = Inl timeout_error" and at: "list_all after_timeout (trace s)"
    and l: "launched (browser_of (trace s)) = 1"
    by (simp_all add: wait_post_def)
  from list_all_mem [OF at assms(2)] have e: "e = timeout_error" by simp
  have nc: "BrowserClose \<notin> set (trace s)"
  proof
    assume "BrowserClose \<in> set (trace s)"
    from list_all_mem [OF at this] show False by simp
  qed
  from run_closes [OF assms(1)] l have "ended (browser_of (trace s)) = 1"
    and "\<not> running (browser_of (trace s))"
    by (simp_all add: closed_once_def)
  with r e nc l show ?thesis by (simp add: timeout_error_def)
qed

theorem challenge_timeout_propagates_witness:
  "WaitForSelector ''div[appcloudflarerecaptcha]'' 300000 (Some (Exn ''TimeoutError'' ''Timeout exceeded.''))
     \<in> set (trace (snd (example_run no_marker)))
   \<and> fst (example_run no_marker) = Inl (Exn ''TimeoutError'' ''Timeout exceeded.'')
   \<and> BrowserClose \<notin> set (trace (snd (example_run no_marker)))
   \<and> ended (browser_of (trace (snd (example_run no_marker)))) = 1"
proof -
  have h: "WaitForSelector ''div[appcloudflarerecaptcha]'' 300000 (Some (Exn ''TimeoutError'' ''Timeout exceeded.''))
     \<in> set (trace (snd (example_run no_marker)))"
    by (simp add: example_run_def run_simps)
  from challenge_timeout_propagates [OF example_run h] h show ?thesis by simp
qed

theorem challenge_timeout_counterexample:
  "fst (example_run no_marker) = Inl (Exn ''TimeoutError'' ''Timeout exceeded.'')
   \<and> cls (Exn ''TimeoutError'' ''Timeout exceeded.'') \<noteq> ''ChallengeTimeoutError''"
  by (simp add: example_run_def run_simps)

subsection \<open>The notification fan-out\<close>

lemma fan_out_result_None:
  "\<forall>c\<in>set cs. get_notification_client E c = None \<Longrightarrow> fan_out_result E cs = None"
  by (induction cs) simp_all

lemma fan_out_deliveries:
  "\<forall>c\<in>set cs. get_notification_client E c = None \<Longrightarrow>
   deliveries (fan_out_trace E m cs) = map (\<lambda>c. (c, m)) cs"
  by (induction cs) (simp_all split: option.splits)

lemma fan_out_no_call: "NotifyAppointment ps ds \<notin> set (fan_out_trace E m cs)"
  by (induction cs) (simp_all split: option.splits)

lemma failures_logged_append:
  "failures_logged xs \<Longrightarrow> failures_logged ys \<Longrightarrow> failures_logged (xs @ ys)"
  unfolding failures_logged_def set_append Un_iff by blast

lemma failures_logged_delivered: "list_all delivered evs \<Longrightarrow> failures_logged evs"
  unfolding failures_logged_def
proof (intro allI impI)
  fix c m e assume "list_all delivered evs" and "SendNotification c m (Some e) \<in> set evs"
  from list_all_mem [OF this] show "Log ERROR (''Failed to send '' @ c @ '' notification'') \<in> set evs"
    by simp
qed

lemma fan_out_failures_logged: "failures_logged (fan_out_trace E m cs)"
proof (induction cs)
  case Nil
  show ?case by (simp add: failures_logged_def)
next
  case (Cons c cs)
  show ?case
  proof (cases "get_notification_client E c")
    case (Some e)
    then show ?thesis by (simp add: failures_logged_def)
  next
    case None
    show ?thesis
    proof (cases "send_notification E c m")
      case n: None
      have "failures_logged ([GetNotificationClient c None, SendNotification c m None] @ fan_out_trace E m cs)"
        by (rule failures_logged_append [OF _ Cons.IH]) (simp add: failures_logged_def)
      with None n show ?thesis by simp
    next
      case (Some e)
      have "failures_logged ([GetNotificationClient c None, SendNotification c m (Some e),
               Log ERROR (''Failed to send '' @ c @ '' notification'')] @ fan_out_trace E m cs)"
        by (rule failures_logged_append [OF _ Cons.IH]) (simp add: failures_logged_def)
      with None Some show ?thesis by simp
    qed
  qed
qed

lemma failures_logged_Nil: "failures_logged []"
  by (simp add: failures_logged_def)

lemma failures_logged_Cons: "delivered ev \<Longrightarrow> failures_logged evs \<Longrightarrow> failures_logged (ev # evs)"
  using failures_logged_append [of "[ev]" evs] by (simp add: failures_logged_delivered)

lemmas logged_rules = failures_logged_append failures_logged_Cons failures_logged_Nil
  fan_out_failures_logged

lemma logged_check:
  "failures_logged (trace s) \<Longrightarrow>
   wp (check_and_notify E ps) (\<lambda>_ s'. failures_logged (trace s')) X s"
  by (simp add: wp_check_and_notify wp_simps Let_def logged_rules
        split: option.splits sum.splits list.splits)

lemma session_logged:
  assumes "failures_logged (trace s)"
  shows "wp (session E bt url em pw ps) (\<lambda>_ s'. failures_logged (trace (playwright_stop s')))
            (\<lambda>_ s'. failures_logged (trace (playwright_stop s'))) s"
  unfolding wp_session using assms
  apply (intro wp_seq [where R = "\<lambda>_ s'. failures_logged (trace s')"] logged_check)
  apply (simp_all add: wp_simps playwright_stop_def logged_rules split: option.splits)
  done

lemma run_logged:
  assumes "run B E a (initial inp) = (r, s)"
  shows "failures_logged (trace s)"
proof -
  have fr: "failures_logged (trace s)" if "fresh s" for s
    using that unfolding fresh_def
    by (intro failures_logged_delivered, rule list_all_mono) (case_tac x, simp_all)
  have "wp (run B E a) (\<lambda>x s. failures_logged (trace s)) (\<lambda>e s. failures_logged (trace s)) (initial inp)"
    by (rule run_rule [where Post = "\<lambda>_ s. failures_logged (trace s)"])
       (simp_all add: fr session_logged)
  from run_post [where Post = "\<lambda>_ s. failures_logged (trace s)", OF this assms] show ?thesis .
qed

lemma no_notification_no_call: "list_all no_notification evs \<Longrightarrow> NotifyAppointment ps ds \<notin> set evs"
proof
  assume "list_all no_notification evs" and "NotifyAppointment ps ds \<in> set evs"
  from list_all_mem [OF this] show False by simp
qed

lemma fan_out_tail:
  assumes inv: "list_all no_notification (trace s)"
    and ch: "get_config_value E ''notification'' ''channels'' None = Inr (Some ch)"
    and res: "\<forall>c\<in>set (split CHR '','' ch). get_notification_client E c = None"
  shows "wp (bind (check_and_notify E ps) (\<lambda>found. bind browser_close (\<lambda>_. return (PyBool found))))
           (\<lambda>x s'. fan_out_post ch (Inr x) (playwright_stop s')) X s"
  using inv ch
  by (simp add: wp_check_and_notify wp_simps Let_def fan_out_post_def playwright_stop_def
        fan_out_result_None [OF res] fan_out_deliveries [OF res] fan_out_no_call
        no_notification_no_call [OF inv] no_notification_deliveries [OF inv]
        split: option.splits sum.splits list.splits)

lemma session_fan_out:
  assumes "list_all no_notification (trace s)"
    and ch: "get_config_value E ''notification'' ''channels'' None = Inr (Some ch)"
    and res: "\<forall>c\<in>set (split CHR '','' ch). get_notification_client E c = None"
  shows "wp (session E bt url em pw ps) (\<lambda>x s'. fan_out_post ch (Inr x) (playwright_stop s'))
            (\<lambda>e s'. fan_out_post ch (Inl e) (playwright_stop s')) s"
  unfolding wp_session using assms(1)
  apply (intro fan_out_tail [OF _ ch res] wp_seq [where R = "\<lambda>_ s'. list_all no_notification (trace s')"])
  apply (simp_all add: wp_simps playwright_stop_def fan_out_post_def split: option.splits)
  done

text \<open>
  C7. For every run that reaches the notification, with a configured channel list whose
  channels all resolve to a client, and whatever the deliveries do: a delivery is
  attempted on every channel, in order, with the message of the appointment; every
  delivery that raises is logged; and \<^verbatim>\<open>run\<close> returns \<^verbatim>\<open>True\<close>.
\<close>

theorem delivery_failure_isolated:
  assumes "run B E a (initial inp) = (r, s)"
    and "NotifyAppointment ps ds \<in> set (trace s)"
    and ch: "get_config_value E ''notification'' ''channels'' None = Inr (Some ch)"
    and res: "\<forall>c\<in>set (split CHR '','' ch). get_notification_client E c = None"
  shows "r = Inr (PyBool True)
     \<and> (ch \<noteq> [] \<longrightarrow>
          deliveries (trace s) = map (\<lambda>c. (c, appointment_message ps ds)) (split CHR '','' ch))
     \<and> (\<forall>c m e. SendNotification c m (Some e) \<in> set (trace s) \<longrightarrow>
          Log ERROR (''Failed to send '' @ c @ '' notification'') \<in> set (trace s))"
proof -
  have nn: "list_all no_notification (trace s)" if "fresh s" for s
    using that unfolding fresh_def by (rule list_all_mono) (rule before_browser_no_notification)
  have "wp (run B E a) (\<lambda>x. fan_out_post ch (Inr x)) (\<lambda>e. fan_out_post ch (Inl e)) (initial inp)"
  proof (rule run_rule [where Post = "fan_out_post ch"])
    fix bt hm url em pw ps s assume "fresh s"
    from session_fan_out [OF nn [OF this] ch res]
    show "wp (session E bt url em pw ps) (\<lambda>x s'. fan_out_post ch (Inr x) (playwright_stop s'))
            (\<lambda>e s'. fan_out_post ch (Inl e) (playwright_stop s')) s" .
  qed (simp_all add: fan_out_post_def nn)
  from run_post [where Post = "fan_out_post ch", OF this assms(1)] have post: "fan_out_post ch r s" .
  from no_notification_no_call [of "trace s" ps ds] assms(2)
  have "\<not> list_all no_notification (trace s)" by blast
  with post assms(2) have "r = Inr (PyBool True)"
    and "ch \<noteq> [] \<longrightarrow> deliveries (trace s) = map (\<lambda>c. (c, appointment_message ps ds)) (split CHR '','' ch)"
    by (simp_all add: fan_out_post_def)
  with run_logged [OF assms(1)] show ?thesis
    by (simp add: failures_logged_def)
qed

theorem delivery_failure_isolated_witness:
  "send_notification email_fails ''email''
      (appointment_message [(''visa_center'', ''Dublin''), (''visa_category'', ''Tourist'')]
         [''2024-05-01'', ''2024-05-03'']) \<noteq> None
   \<and> fst (example_run email_fails) = Inr (PyBool True)
   \<and> deliveries (trace (snd (example_run email_fails))) =
       [(''email'', ''Found appointment(s) for Dublin, Tourist on 2024-05-01, 2024-05-03''),
        (''sms'', ''Found appointment(s) for Dublin, Tourist on 2024-05-01, 2024-05-03'')]"
proof -
  have h: "NotifyAppointment [(''visa_center'', ''Dublin''), (''visa_category'', ''Tourist'')]
         [''2024-05-01'', ''2024-05-03''] \<in> set (trace (snd (example_run email_fails)))"
    by (simp add: example_run_def run_simps)
  have ch: "get_config_value email_fails ''notification'' ''channels'' None = Inr (Some ''email,sms'')"
    by (simp add: email_fails_def example_env_def config_reader_def example_config_def)
  have res: "\<forall>c\<in>set (split CHR '','' ''email,sms''). get_notification_client email_fails c = None"
    by (simp add: email_fails_def example_env_def)
  from delivery_failure_isolated [OF example_run h ch res] show ?thesis
    by (simp add: appointment_message_def values_of_def email_fails_def)
qed

text \<open>
  C3. A run whose appointment check returns dates calls \<^verbatim>\<open>notify_appointment\<close> and is
  to return \<^verbatim>\<open>True\<close>. Here the check returns two dates, the configuration has no
  \<^verbatim>\<open>notification.channels\<close>, the notification raises inside the \<^verbatim>\<open>try\<close> before the
  flag is set, and \<^verbatim>\<open>run\<close> returns \<^verbatim>\<open>False\<close>.
\<close>

theorem notification_error_returns_false:
  "fst (example_run (without (''notification'', ''channels''))) = Inr (PyBool False)
   \<and> CheckForAppointment [(''visa_center'', ''Dublin''), (''visa_category'', ''Tourist'')]
        (Inr (Some [''2024-05-01'', ''2024-05-03'']))
      \<in> set (trace (snd (example_run (without (''notification'', ''channels'')))))
   \<and> NotifyAppointment [(''visa_center'', ''Dublin''), (''visa_category'', ''Tourist'')]
        [''2024-05-01'', ''2024-05-03'']
      \<in> set (trace (snd (example_run (without (''notification'', ''channels'')))))"
  by (simp add: example_run_def run_simps)

subsection \<open>The configuration\<close>

text \<open>
  C2 (amended). When one of the three reads inside the first \<^verbatim>\<open>try\<close> (browser type,
  headless flag, URL keyed by source and destination) raises \<^verbatim>\<open>KeyError\<close>, \<^verbatim>\<open>run\<close>
  logs the missing value and returns \<^verbatim>\<open>None\<close>; it prompts for nothing, opens no
  browser and raises nothing.
\<close>

theorem missing_config_aborts:
  assumes "read_config B E = Inl e" and "cls e = ''KeyError''"
  shows "run B E a s =
    (Inr PyNone,
     s\<lparr>trace := trace s @
        [Log INFO (''Starting VFS Bot for '' @ upper (source_country_code B)
                     @ ''-'' @ upper (destination_country_code B)),
         Log ERROR (''Missing configuration value: '' @ str e)]\<rparr>)"
  using assms by (simp add: run_def bind_def logging_def emit_def return_def)

theorem missing_config_aborts_witness:
  "run example_bot (without (''vfs-url'', ''IE-NL'')) example_args (initial []) =
    (Inr PyNone,
     \<lparr>trace = [Log INFO ''Starting VFS Bot for IE-NL'',
               Log ERROR (''Missing configuration value: '' @ repr ''IE-NL'')],
      stdin = []\<rparr>)"
proof -
  have h: "read_config example_bot (without (''vfs-url'', ''IE-NL'')) = Inl (Exn ''KeyError'' (repr ''IE-NL''))"
    by (simp add: read_config_def config_reader_def example_env_def example_config_def example_bot_def
          without_def)
  have u: "upper ''IE'' = ''IE''" "upper ''NL'' = ''NL''" by (simp_all add: upper_def)
  from missing_config_aborts [OF h, of example_args "initial []"] u show ?thesis
    by (simp add: example_bot_def initial_def)
qed

theorem default_browser_type_counterexample:
  "example_config (''browser'', ''type'') = None
   \<and> launched (browser_of (trace (snd (example_run example_env)))) = 1"
  by (simp add: example_run_def run_simps)

text \<open>The credentials are read after the \<^verbatim>\<open>try\<close>: with this reader, a missing e-mail
  address raises \<^verbatim>\<open>KeyError\<close> out of \<^verbatim>\<open>run\<close>.\<close>

lemma missing_credentials_escape:
  "fst (example_run (without (''vfs-credential'', ''email''))) = Inl (Exn ''KeyError'' (repr ''email''))"
  by (simp add: example_run_def run_simps)

subsection \<open>Parameter collection\<close>

text \<open>
  C10. When \<^verbatim>\<open>args\<close> is \<^verbatim>\<open>None\<close> and the adapter declares at least one key, parameter
  collection raises \<^verbatim>\<open>AttributeError\<close>; in a run whose configuration is read without
  error this exception leaves \<^verbatim>\<open>run\<close> after the first log line: nothing is prompted
  for and no browser is opened.
\<close>

theorem args_none_raises_AttributeError:
  assumes "appointment_param_keys B \<noteq> []"
    and "read_config B E = Inr c" and "read_credentials E = Inr d"
  shows "get_appointment_params (appointment_param_keys B) ArgsNone s =
           (Inl (Exn ''AttributeError''
              (repr ''NoneType'' @ '' object has no attribute '' @ repr ''appointment_params'')), s)
       \<and> run B E ArgsNone s =
           (Inl (Exn ''AttributeError''
              (repr ''NoneType'' @ '' object has no attribute '' @ repr ''appointment_params'')),
            s\<lparr>trace := trace s @
               [Log INFO (''Starting VFS Bot for '' @ upper (source_country_code B)
                            @ ''-'' @ upper (destination_country_code B))]\<rparr>)"
proof -
  obtain key keys where k: "appointment_param_keys B = key # keys"
    using assms(1) by (cases "appointment_param_keys B") auto
  have g: "get_appointment_params (appointment_param_keys B) ArgsNone s' =
           (Inl (Exn ''AttributeError''
              (repr ''NoneType'' @ '' object has no attribute '' @ repr ''appointment_params'')), s')" for s'
    by (simp add: k get_appointment_params_def bind_def getattr_appointment_params_def raise_def)
  obtain bt hm url where c: "c = (bt, hm, url)" by (cases c) auto
  obtain em pw where d: "d = (em, pw)" by (cases d) auto
  show ?thesis
    using assms(2,3) by (simp add: g c d run_def bind_def logging_def emit_def lift_def return_def)
qed

theorem args_none_raises_AttributeError_witness:
  "run example_bot example_env ArgsNone (initial [''Dublin'', ''Tourist'']) =
     (Inl (Exn ''AttributeError''
        (repr ''NoneType'' @ '' object has no attribute '' @ repr ''appointment_params'')),
      \<lparr>trace = [Log INFO ''Starting VFS Bot for IE-NL''], stdin = [''Dublin'', ''Tourist'']\<rparr>)"
proof -
  have k: "appointment_param_keys example_bot \<noteq> []" by (simp add: example_bot_def)
  have c: "read_config example_bot example_env =
      Inr (Some ''firefox'', Some ''True'', Some ''https://visa.example/ie/nl'')"
    by (simp add: read_config_def config_reader_def example_env_def example_config_def example_bot_def)
  have d: "read_credentials example_env = Inr (Some ''user@example.org'', Some ''secret'')"
    by (simp add: read_credentials_def config_reader_def example_env_def example_config_def)
  have u: "upper ''IE'' = ''IE''" "upper ''NL'' = ''NL''" by (simp_all add: upper_def)
  from args_none_raises_AttributeError [OF k c d, of "initial [''Dublin'', ''Tourist'']"] u
  show ?thesis by (simp add: example_bot_def initial_def)
qed

text \<open>
  C5. Given the keys \<^verbatim>\<open>visa_center\<close> and \<^verbatim>\<open>visa_category\<close> and the provided arguments
  \<^verbatim>\<open>{"visa_center": "Dublin"}\<close>, the collector is to prompt for \<^verbatim>\<open>visa_category\<close> and
  return both entries. The code subscripts the dict with the absent key: it raises
  \<^verbatim>\<open>KeyError\<close>, prompts for nothing and leaves the input unread.
\<close>

theorem absent_key_raises_KeyError:
  "get_appointment_params [''visa_center'', ''visa_category'']
     (Namespace (AttrDict [''visa_center'' \<mapsto> Some ''Dublin''])) (initial [''Tourist'']) =
   (Inl (Exn ''KeyError'' (repr ''visa_category'')), initial [''Tourist''])"
  by (simp add: get_appointment_params_def bind_def getattr_appointment_params_def subscript_def
        return_def raise_def)

text \<open>A key that is present with the value \<^verbatim>\<open>None\<close> is prompted for.\<close>

lemma none_value_prompts:
  "get_appointment_params [''visa_center'', ''visa_category'']
     (Namespace (AttrDict [''visa_center'' \<mapsto> Some ''Dublin'', ''visa_category'' \<mapsto> None]))
     (initial [''Tourist'']) =
   (Inr [(''visa_center'', ''Dublin''), (''visa_category'', ''Tourist'')],
    \<lparr>trace = [Input ''Enter the visa category: '' (Some ''Tourist'')], stdin = []\<rparr>)"
  by (simp add: get_appointment_params_def bind_def getattr_appointment_params_def subscript_def
        return_def raise_def prompt_for_def input_def replace_def initial_def)

end
